theory Spec2Isabelle
  imports Complex_Main "HOL-Library.Log_Nat"
begin

section \<open>IEEE 754 arithmetic on finite values\<close>

text \<open>
  The program computes with C++ \<^verbatim>\<open>float\<close> (binary32) and \<^verbatim>\<open>double\<close> (binary64).
  A finite floating-point value is modelled by the rational number it denotes, and every
  arithmetic operation of the source is the exact rational operation followed by rounding
  to nearest, ties to even, at the precision of the result type. Subnormal numbers are
  covered by the minimal exponent; infinities and NaN are not modelled (every value the
  program computes itself is smaller than 8 in magnitude).
\<close>

type_synonym double = rat
type_synonym cfloat = rat

definition ilog2 :: "rat \<Rightarrow> int" where
  \<comment> \<open>\<open>\<lfloor>log\<^sub>2 \<bar>x\<bar>\<rfloor>\<close> for \<open>x \<noteq> 0\<close>\<close>
  "ilog2 x =
     (let (a, b) = quotient_of \<bar>x\<bar>; d = bitlen a - bitlen b
      in if 2 powi d \<le> \<bar>x\<bar> then d else d - 1)"

definition round_even :: "rat \<Rightarrow> int" where
  \<comment> \<open>nearest integer, ties to the even one\<close>
  "round_even q =
     (let f = \<lfloor>q\<rfloor>; r = q - of_int f
      in if r < 1 / 2 then f else if 1 / 2 < r then f + 1 else if even f then f else f + 1)"

definition fl_round :: "nat \<Rightarrow> int \<Rightarrow> rat \<Rightarrow> rat" where
  \<comment> \<open>round \<open>x\<close> to \<open>p\<close> significant bits, exponents not below \<open>emin\<close>\<close>
  "fl_round p emin x =
     (if x = 0 then 0
      else let e = max (ilog2 x) emin; q = 2 powi (e - int p + 1)
           in of_int (round_even (x / q)) * q)"

definition f32 :: "rat \<Rightarrow> cfloat" where
  "f32 = fl_round 24 (- 126)"

definition f64 :: "rat \<Rightarrow> double" where
  "f64 = fl_round 53 (- 1022)"

definition M_PI :: double where
  \<comment> \<open>\<^verbatim>\<open># define M_PI 3.14159265358979323846\<close> of \<^verbatim>\<open>math.h\<close>, a double literal\<close>
  "M_PI = f64 (314159265358979323846 / 100000000000000000000)"

definition dlit :: "rat \<Rightarrow> double" where
  \<comment> \<open>a decimal literal of type \<^verbatim>\<open>double\<close>\<close>
  "dlit r = f64 r"

section \<open>Data of the program\<close>

text \<open>
  \<^verbatim>\<open>tf2::Vector3\<close>, \<^verbatim>\<open>Eigen::Vector3d\<close> and \<^verbatim>\<open>geometry_msgs::msg::Point\<close> hold three doubles,
  \<^verbatim>\<open>tf2::Quaternion\<close>, \<^verbatim>\<open>Eigen::Quaterniond\<close> and \<^verbatim>\<open>geometry_msgs::msg::Quaternion\<close> four; the
  conversions between them (\<^verbatim>\<open>Eigen::Vector3d vec1(norm_vec)\<close>, \<^verbatim>\<open>tf2::toMsg\<close>, \<^verbatim>\<open>Eigen::toMsg\<close>)
  copy the components, so one record stands for each.
\<close>

record vector3 =
  vx :: double
  vy :: double
  vz :: double

record quaternion =
  qx :: double
  qy :: double
  qz :: double
  qw :: double

record pose =
  position :: vector3
  orientation :: quaternion

record isometry3d =
  linear :: "vector3 list"
  translation :: vector3

definition Vector3 :: "double \<Rightarrow> double \<Rightarrow> double \<Rightarrow> vector3" where
  "Vector3 x y z = \<lparr>vx = x, vy = y, vz = z\<rparr>"

definition vec_scale :: "vector3 \<Rightarrow> double \<Rightarrow> vector3" where
  \<comment> \<open>\<^verbatim>\<open>tf2::Vector3::operator*=\<close>: each component times the scalar\<close>
  "vec_scale v s = Vector3 (f64 (vx v * s)) (f64 (vy v * s)) (f64 (vz v * s))"

definition vec_add :: "vector3 \<Rightarrow> vector3 \<Rightarrow> vector3" where
  \<comment> \<open>\<^verbatim>\<open>tf2::operator+\<close>: the component-wise sum\<close>
  "vec_add a b = Vector3 (f64 (vx a + vx b)) (f64 (vy a + vy b)) (f64 (vz a + vz b))"

definition Isometry3d_Identity :: isometry3d where
  "Isometry3d_Identity =
     \<lparr>linear = [Vector3 1 0 0, Vector3 0 1 0, Vector3 0 0 1], translation = Vector3 0 0 0\<rparr>"

record move_group_interface =
  mg_node :: string
  mg_group :: string

record moveit_visual_tools =
  vt_node :: string
  vt_base_frame :: string
  vt_marker_topic :: string

datatype rvt_color = WHITE | LIME_GREEN

datatype rvt_scale = SMALL | XLARGE

datatype log_arg = Arg_str string | Arg_dbl double

section \<open>Calls into the middleware and the libraries\<close>

text \<open>
  The program is a sequence of calls into rclcpp, MoveIt, the visual tools, the C++ standard
  library and the logger. Each call the program makes is an event, and an execution is the
  list of its events in program order. The type \<open>'t\<close> is the planned trajectory
  (\<^verbatim>\<open>moveit_msgs::msg::RobotTrajectory\<close>), which the program only hands from one library call
  to the next. Calls that return a value to the program record it as their last
  arguments.
\<close>

datatype 't event =
    Rclcpp_init "string list"
  | Node_make_shared string bool
  | Executor_add_node string
  | Std_thread_detach string
  | MoveGroupInterface_new move_group_interface
  | PlanningSceneInterface_new
  | GetRobotModel move_group_interface
  | MoveItVisualTools_new moveit_visual_tools
  | DeleteAllMarkers moveit_visual_tools
  | LoadRemoteControl moveit_visual_tools
  | PublishText moveit_visual_tools isometry3d string rvt_color rvt_scale
  | Trigger moveit_visual_tools
  | GetPlanningFrame move_group_interface string
  | GetEndEffectorLink move_group_interface string
  | GetJointModelGroupNames move_group_interface "string list"
  | Log_info string "log_arg list"
  | Cout_write string
  | Prompt moveit_visual_tools string
  | ComputeCartesianPath move_group_interface "pose list" double double double 't
  | PublishPath moveit_visual_tools "pose list" rvt_color rvt_scale
  | PublishAxisLabeled moveit_visual_tools pose string rvt_scale
  | Execute move_group_interface 't int
  | Rclcpp_shutdown

text \<open>
  What the libraries answer is not in this repository, so it is a parameter of the model.
  The numeric functions of tf2 and Eigen are functions of their arguments;
  the answers of MoveIt may depend on everything that happened before, which is the list
  of events so far.
\<close>

record 't library =
  setRPY :: "double \<Rightarrow> double \<Rightarrow> double \<Rightarrow> quaternion"
  quatRotate :: "quaternion \<Rightarrow> vector3 \<Rightarrow> vector3"
  FromTwoVectors :: "vector3 \<Rightarrow> vector3 \<Rightarrow> quaternion"
  getPlanningFrame :: "'t event list \<Rightarrow> string"
  getEndEffectorLink :: "'t event list \<Rightarrow> string"
  getJointModelGroupNames :: "'t event list \<Rightarrow> string list"
  computeCartesianPath ::
    "'t event list \<Rightarrow> pose list \<Rightarrow> double \<Rightarrow> double \<Rightarrow> double \<times> 't"
  execute :: "'t event list \<Rightarrow> 't \<Rightarrow> int"

text \<open>The variables of \<^verbatim>\<open>main\<close> that are alive across the demo loop, and the events so far.\<close>

record 't main_state =
  move_group :: move_group_interface
  visual_tools :: moveit_visual_tools
  text_pose :: isometry3d
  trace :: "'t event list"

section \<open>The program\<close>

definition PLANNING_GROUP :: string where
  "PLANNING_GROUP = ''ur_manipulator''"

definition main_init :: "'t library \<Rightarrow> string list \<Rightarrow> 't main_state" where
  \<comment> \<open>\<^verbatim>\<open>main\<close> up to the demo loop\<close>
  "main_init L argv =
     (let welding_demo_node = ''welding_demo_node'';
          tr = [Rclcpp_init argv,
                Node_make_shared welding_demo_node True,
                Executor_add_node welding_demo_node,
                Std_thread_detach ''executor.spin()''];
          mg = \<lparr>mg_node = welding_demo_node, mg_group = PLANNING_GROUP\<rparr>;
          tr = tr @ [MoveGroupInterface_new mg, PlanningSceneInterface_new];
          vt = \<lparr>vt_node = welding_demo_node, vt_base_frame = ''base_link'',
                vt_marker_topic = ''welding_demo_tutorial''\<rparr>;
          tr = tr @ [GetRobotModel mg, MoveItVisualTools_new vt,
                     DeleteAllMarkers vt, LoadRemoteControl vt];
          tp = Isometry3d_Identity;
          tp = tp\<lparr>translation := (translation tp)\<lparr>vz := dlit 1\<rparr>\<rparr>;
          tr = tr @ [PublishText vt tp ''MoveGroupInterface_Demo'' WHITE XLARGE, Trigger vt];
          frame = getPlanningFrame L tr;
          tr = tr @ [GetPlanningFrame mg frame,
                     Log_info ''Planning frame: %s'' [Arg_str frame]];
          link = getEndEffectorLink L tr;
          tr = tr @ [GetEndEffectorLink mg link,
                     Log_info ''End effector link: %s'' [Arg_str link]];
          tr = tr @ [Log_info ''Available Planning Groups:'' []];
          names = getJointModelGroupNames L tr;
          tr = tr @ [GetJointModelGroupNames mg names];
          tr = tr @ [GetJointModelGroupNames mg (getJointModelGroupNames L tr)];
          tr = tr @ concat (map (\<lambda>n. [Cout_write n, Cout_write '', '']) names)
      in \<lparr>move_group = mg, visual_tools = vt, text_pose = tp, trace = tr\<rparr>)"

definition center_pos :: vector3 where
  \<comment> \<open>\<^verbatim>\<open>tf2::Vector3 center_pos = tf2::Vector3(0.2, 0, 0.8)\<close>\<close>
  "center_pos = Vector3 (dlit (2 / 10)) 0 (dlit (8 / 10))"

definition goal_dir :: vector3 where
  \<comment> \<open>\<^verbatim>\<open>tf2::Vector3 goal_dir = tf2::Vector3(1, 0, 0); goal_dir *= 0.2;\<close>\<close>
  "goal_dir = vec_scale (Vector3 1 0 0) (dlit (2 / 10))"

definition waypoint_body ::
  "'t library \<Rightarrow> cfloat \<Rightarrow> pose \<times> 't event" where
  \<comment> \<open>the body of the waypoint loop at one angle: the pose pushed and the line logged\<close>
  "waypoint_body L angle =
     (let q_rot = setRPY L 0 0 angle;
          goal_pos = vec_add center_pos (quatRotate L q_rot goal_dir);
          q_rot = setRPY L 0 0 (f64 (M_PI - angle));
          norm_vec = quatRotate L q_rot goal_dir;
          vec1 = norm_vec;
          vec2 = Vector3 1 0 0;
          quat = FromTwoVectors L vec1 vec2;
          robot_pose = \<lparr>position = goal_pos, orientation = quat\<rparr>
      in (robot_pose,
          Log_info ''q_rot: %f %f %f %f''
            [Arg_dbl (qx q_rot), Arg_dbl (qy q_rot), Arg_dbl (qz q_rot), Arg_dbl (qw q_rot)]))"

partial_function (option) waypoint_loop ::
  "'t library \<Rightarrow> cfloat \<Rightarrow> pose list \<Rightarrow> 't event list
     \<Rightarrow> (pose list \<times> 't event list) option" where
  \<comment> \<open>\<^verbatim>\<open>for (float angle = 0; angle < 2 * M_PI; angle += 0.5)\<close>, entered at \<open>angle\<close>\<close>
  "waypoint_loop L angle waypoints tr =
     (if angle < f64 (2 * M_PI) then
        waypoint_loop L (f32 (f64 (angle + dlit (1 / 2))))
          (waypoints @ [fst (waypoint_body L angle)])
          (tr @ [snd (waypoint_body L angle)])
      else Some (waypoints, tr))"

declare waypoint_loop.simps [code]

fun digit_char :: "nat \<Rightarrow> char" where
  "digit_char d = char_of (48 + d)"

function to_string :: "nat \<Rightarrow> string" where
  \<comment> \<open>\<^verbatim>\<open>std::to_string\<close> of a \<^verbatim>\<open>std::size_t\<close>: the decimal digits\<close>
  "to_string n = (if n < 10 then [digit_char n] else to_string (n div 10) @ [digit_char (n mod 10)])"
  by pat_completeness auto
termination
  by (relation "measure id") auto

declare to_string.simps [simp del]

definition axis_labels :: "moveit_visual_tools \<Rightarrow> pose list \<Rightarrow> 't event list" where
  \<comment> \<open>\<^verbatim>\<open>for (std::size_t i = 0; i < waypoints.size(); ++i) publishAxisLabeled(...)\<close>\<close>
  "axis_labels vt waypoints =
     map (\<lambda>i. PublishAxisLabeled vt (waypoints ! i) (''pt'' @ to_string i) SMALL)
       [0 ..< length waypoints]"

definition plan_prompt :: string where
  "plan_prompt =
     ''Press 'next' in the RvizVisualToolsGui window to create a plan for a test '' @ ''trajectory''"

definition execute_prompt :: string where
  "execute_prompt = ''Press 'next' in the RvizVisualToolsGui window to execute the trajectory''"

definition demo_iteration :: "'t library \<Rightarrow> 't main_state \<Rightarrow> 't main_state option" where
  \<comment> \<open>one pass through the body of \<^verbatim>\<open>while (1)\<close>\<close>
  "demo_iteration L s =
     (let vt = visual_tools s; mg = move_group s;
          tr = trace s @ [Prompt vt plan_prompt]
      in case waypoint_loop L 0 [] tr of
           None \<Rightarrow> None
         | Some (waypoints, tr) \<Rightarrow>
            (let jump_threshold = dlit 0;
                 eef_step = dlit (1 / 100);
                 (fraction, trajectory) = computeCartesianPath L tr waypoints eef_step jump_threshold;
                 tr = tr @ [ComputeCartesianPath mg waypoints eef_step jump_threshold fraction trajectory,
                            Log_info ''Visualizing plan for a Cartesian path (%.2f%% achieved)''
                              [Arg_dbl (f64 (fraction * dlit 100))]];
                 tr = tr @ [DeleteAllMarkers vt,
                            PublishText vt (text_pose s) ''Cartesian_Path'' WHITE XLARGE,
                            PublishPath vt waypoints LIME_GREEN SMALL];
                 tr = tr @ axis_labels vt waypoints;
                 tr = tr @ [Trigger vt, Prompt vt execute_prompt];
                 tr = tr @ [Execute mg trajectory (execute L tr trajectory)];
                 tr = tr @ [DeleteAllMarkers vt, Trigger vt]
             in Some (s\<lparr>trace := tr\<rparr>)))"

partial_function (option) demo_loop :: "'t library \<Rightarrow> 't main_state \<Rightarrow> 't main_state option" where
  \<comment> \<open>\<^verbatim>\<open>while (1) { ... }\<close>: the value is the state in which the loop is left\<close>
  "demo_loop L s =
     (if (1 :: int) \<noteq> 0 then Option.bind (demo_iteration L s) (demo_loop L) else Some s)"

definition main :: "'t library \<Rightarrow> string list \<Rightarrow> ('t event list \<times> int) option" where
  \<comment> \<open>the events of a run of \<^verbatim>\<open>main\<close> that returns, and its exit status\<close>
  "main L argv =
     Option.bind (demo_loop L (main_init L argv)) (\<lambda>s. Some (trace s @ [Rclcpp_shutdown], 0))"

fun iterations :: "'t library \<Rightarrow> nat \<Rightarrow> 't main_state \<Rightarrow> 't main_state option" where
  \<comment> \<open>the state after \<open>n\<close> passes through the body of the demo loop\<close>
  "iterations L 0 s = Some s"
| "iterations L (Suc n) s = Option.bind (demo_iteration L s) (iterations L n)"

section \<open>Observing an execution\<close>

text \<open>The calls of one kind among the events of an execution, with the arguments that matter.\<close>

datatype operation =
  Op_prompt | Op_computeCartesianPath | Op_publishPath | Op_publishAxisLabeled | Op_execute

fun operation_of :: "'t event \<Rightarrow> operation option" where
  "operation_of (Prompt vt text) = Some Op_prompt"
| "operation_of (ComputeCartesianPath mg wps eef_step jump fraction traj) = Some Op_computeCartesianPath"
| "operation_of (PublishPath vt wps c sc) = Some Op_publishPath"
| "operation_of (PublishAxisLabeled vt p name sc) = Some Op_publishAxisLabeled"
| "operation_of (Execute mg traj code) = Some Op_execute"
| "operation_of e = None"

definition operations :: "'t event list \<Rightarrow> operation list" where
  \<comment> \<open>the prompts and the planning, path drawing, labelling and execution calls, in order\<close>
  "operations evs = List.map_filter operation_of evs"

definition is_operation :: "'t event \<Rightarrow> bool" where
  \<comment> \<open>the event is one of the calls that \<open>operation_of\<close> names\<close>
  "is_operation e = (case operation_of e of None \<Rightarrow> False | Some k \<Rightarrow> True)"

fun is_prompt :: "'t event \<Rightarrow> bool" where
  "is_prompt (Prompt vt text) = True"
| "is_prompt e = False"

fun is_execute :: "'t event \<Rightarrow> bool" where
  "is_execute (Execute mg traj code) = True"
| "is_execute e = False"

fun is_log :: "'t event \<Rightarrow> bool" where
  "is_log (Log_info fmt args) = True"
| "is_log e = False"

fun plan_call :: "'t event \<Rightarrow> (move_group_interface \<times> pose list \<times> double \<times> double) option" where
  "plan_call (ComputeCartesianPath mg wps eef_step jump fraction traj) = Some (mg, wps, eef_step, jump)"
| "plan_call e = None"

fun execute_call :: "'t event \<Rightarrow> (move_group_interface \<times> 't) option" where
  "execute_call (Execute mg traj code) = Some (mg, traj)"
| "execute_call e = None"

fun path_published :: "'t event \<Rightarrow> pose list option" where
  "path_published (PublishPath vt wps c sc) = Some wps"
| "path_published e = None"

fun axis_published :: "'t event \<Rightarrow> (pose \<times> string) option" where
  "axis_published (PublishAxisLabeled vt p name sc) = Some (p, name)"
| "axis_published e = None"

fun group_constructed :: "'t event \<Rightarrow> move_group_interface option" where
  "group_constructed (MoveGroupInterface_new mg) = Some mg"
| "group_constructed e = None"

fun thread_started :: "'t event \<Rightarrow> string option" where
  "thread_started (Std_thread_detach body) = Some body"
| "thread_started e = None"

fun text_published :: "'t event \<Rightarrow> isometry3d option" where
  "text_published (PublishText vt tp text c sc) = Some tp"
| "text_published e = None"

fun execute_result :: "'t event \<Rightarrow> int option" where
  "execute_result (Execute mg traj code) = Some code"
| "execute_result e = None"

fun after_execute :: "'t event list \<Rightarrow> 't event list" where
  \<comment> \<open>the events behind the first execution call\<close>
  "after_execute [] = []"
| "after_execute (e # es) = (if is_execute e then es else after_execute es)"

definition new_events :: "'t main_state \<Rightarrow> 't main_state \<Rightarrow> 't event list" where
  \<comment> \<open>the events between an earlier state and a later one\<close>
  "new_events s s' = drop (length (trace s)) (trace s')"

section \<open>One pass through the demo loop in closed form\<close>

text \<open>
  The lemmas below show that the waypoint loop runs its body at the thirteen angles
  \<open>0, 0.5, \<dots>, 6\<close> and nowhere else. With that, the events of a pass are the following
  lists; \<open>demo_iteration_eq\<close> proves that they are what \<open>demo_iteration\<close> computes.
\<close>

definition waypoint_angles :: "cfloat list" where
  "waypoint_angles = [0, 1 / 2, 1, 3 / 2, 2, 5 / 2, 3, 7 / 2, 4, 9 / 2, 5, 11 / 2, 6]"

definition waypoints_of :: "'t library \<Rightarrow> pose list" where
  "waypoints_of L = map (\<lambda>a. fst (waypoint_body L a)) waypoint_angles"

definition q_rot_logs :: "'t library \<Rightarrow> 't event list" where
  "q_rot_logs L = map (\<lambda>a. snd (waypoint_body L a)) waypoint_angles"

definition plan_trace :: "'t library \<Rightarrow> 't main_state \<Rightarrow> 't event list" where
  \<comment> \<open>the events up to the planning call\<close>
  "plan_trace L s = trace s @ Prompt (visual_tools s) plan_prompt # q_rot_logs L"

definition plan_answer :: "'t library \<Rightarrow> 't main_state \<Rightarrow> double \<times> 't" where
  "plan_answer L s =
     computeCartesianPath L (plan_trace L s) (waypoints_of L) (dlit (1 / 100)) (dlit 0)"

definition show_events :: "'t library \<Rightarrow> 't main_state \<Rightarrow> 't event list" where
  \<comment> \<open>the events from the planning call up to the second prompt\<close>
  "show_events L s =
     [ComputeCartesianPath (move_group s) (waypoints_of L) (dlit (1 / 100)) (dlit 0)
        (fst (plan_answer L s)) (snd (plan_answer L s)),
      Log_info ''Visualizing plan for a Cartesian path (%.2f%% achieved)''
        [Arg_dbl (f64 (fst (plan_answer L s) * dlit 100))],
      DeleteAllMarkers (visual_tools s),
      PublishText (visual_tools s) (text_pose s) ''Cartesian_Path'' WHITE XLARGE,
      PublishPath (visual_tools s) (waypoints_of L) LIME_GREEN SMALL] @
     axis_labels (visual_tools s) (waypoints_of L) @
     [Trigger (visual_tools s), Prompt (visual_tools s) execute_prompt]"

definition execute_events :: "'t library \<Rightarrow> 't main_state \<Rightarrow> 't event list" where
  \<comment> \<open>the execution call and what follows it\<close>
  "execute_events L s =
     [Execute (move_group s) (snd (plan_answer L s))
        (execute L (plan_trace L s @ show_events L s) (snd (plan_answer L s))),
      DeleteAllMarkers (visual_tools s), Trigger (visual_tools s)]"

definition iteration_events :: "'t library \<Rightarrow> 't main_state \<Rightarrow> 't event list" where
  "iteration_events L s =
     Prompt (visual_tools s) plan_prompt # q_rot_logs L @ show_events L s @ execute_events L s"

section \<open>A library to run the program against\<close>

text \<open>
  A stand-in for the libraries, for running the model on a concrete input: planning always
  succeeds with a trajectory that is the number of waypoints, and executing a trajectory
  always fails with \<^verbatim>\<open>MoveItErrorCode::FAILURE\<close> (99999). Its numeric functions are
  arbitrary.
\<close>

definition stub_library :: "nat library" where
  "stub_library =
     \<lparr>setRPY = (\<lambda>roll pitch yaw. \<lparr>qx = roll, qy = pitch, qz = yaw, qw = 1\<rparr>),
      quatRotate = (\<lambda>q v. Vector3 (f64 (vx v * qw q)) (f64 (vx v * qz q)) (vz v)),
      FromTwoVectors = (\<lambda>a b. \<lparr>qx = vx a, qy = vy a, qz = vx b, qw = vy b\<rparr>),
      getPlanningFrame = (\<lambda>tr. ''world''),
      getEndEffectorLink = (\<lambda>tr. ''tool0''),
      getJointModelGroupNames = (\<lambda>tr. [''ur_manipulator'']),
      computeCartesianPath = (\<lambda>tr wps eef_step jump. (1, length wps)),
      execute = (\<lambda>tr traj. 99999)\<rparr>"

section \<open>The waypoint loop\<close>

lemma two_pi_value: "f64 (2 * M_PI) = 884279719003555 / 2 ^ 47"
  by code_simp

lemma angle_steps:
  "list_all (\<lambda>k. f32 (f64 (of_nat k / 2 + dlit (1 / 2))) = of_nat (Suc k) / 2 \<and>
      of_nat k / 2 < (884279719003555 / 2 ^ 47 :: rat)) [0..<13]"
  by code_simp

lemma angle_step:
  assumes "k < 13"
  shows "f32 (f64 (of_nat k / 2 + dlit (1 / 2))) = of_nat (Suc k) / 2"
    and "(of_nat k / 2 :: rat) < f64 (2 * M_PI)"
  using angle_steps assms unfolding two_pi_value by (simp_all add: list_all_iff)

lemma angle_exit: "\<not> (of_nat 13 / 2 :: rat) < f64 (2 * M_PI)"
  unfolding two_pi_value by simp

lemma waypoint_loop_from:
  assumes "k \<le> 13"
  shows "waypoint_loop L (of_nat k / 2) wps tr =
           Some (wps @ map (\<lambda>i. fst (waypoint_body L (of_nat i / 2))) [k..<13],
                 tr @ map (\<lambda>i. snd (waypoint_body L (of_nat i / 2))) [k..<13])"
  using assms
proof (induction "13 - k" arbitrary: k wps tr)
  case 0
  then have "k = 13" by simp
  then show ?case
    using angle_exit by (subst waypoint_loop.simps) simp
next
  case (Suc n)
  then have k: "k < 13" and n: "n = 13 - Suc k" and le: "Suc k \<le> 13" by simp_all
  have upt: "[k..<13] = k # [Suc k..<13]"
    using k by (simp add: upt_conv_Cons)
  show ?case
    apply (subst waypoint_loop.simps)
    apply (simp only: angle_step [OF k] if_True)
    apply (simp only: Suc.hyps(1) [OF n le])
    apply (simp add: upt)
    done
qed

lemma half_angles: "map (\<lambda>i. f (of_nat i / 2 :: rat)) [0..<13] = map f waypoint_angles"
  by (simp add: upt_rec waypoint_angles_def)

lemma waypoint_loop_0: "waypoint_loop L 0 [] tr = Some (waypoints_of L, tr @ q_rot_logs L)"
  using waypoint_loop_from [of 0 L "[]" tr]
  by (simp add: waypoints_of_def q_rot_logs_def
      half_angles [of "\<lambda>a. fst (waypoint_body L a)"]
      half_angles [of "\<lambda>a. snd (waypoint_body L a)"])

lemma length_waypoints_of: "length (waypoints_of L) = 13"
  by (simp add: waypoints_of_def waypoint_angles_def)

lemma waypoint_body_snd:
  "snd (waypoint_body L a) =
     Log_info ''q_rot: %f %f %f %f''
       [Arg_dbl (qx (setRPY L 0 0 (f64 (M_PI - a)))), Arg_dbl (qy (setRPY L 0 0 (f64 (M_PI - a)))),
        Arg_dbl (qz (setRPY L 0 0 (f64 (M_PI - a)))), Arg_dbl (qw (setRPY L 0 0 (f64 (M_PI - a))))]"
  by (simp add: waypoint_body_def Let_def)

section \<open>One pass through the demo loop\<close>

lemma demo_iteration_eq:
  "demo_iteration L s = Some (s\<lparr>trace := trace s @ iteration_events L s\<rparr>)"
  unfolding demo_iteration_def waypoint_loop_0
  by (simp add: Let_def iteration_events_def execute_events_def show_events_def plan_answer_def
      plan_trace_def split: prod.split)

lemma new_events_append: "new_events s (s\<lparr>trace := trace s @ evs\<rparr>) = evs"
  by (simp add: new_events_def)

subsection \<open>What the calls of a pass are\<close>

lemma map_filter_append:
  "List.map_filter f (xs @ ys) = List.map_filter f xs @ List.map_filter f ys"
  by (simp add: List.map_filter_def)

lemma map_filter_map_None:
  assumes "\<And>x. f (g x) = None"
  shows "List.map_filter f (map g xs) = []"
  by (induction xs) (simp_all add: assms)

lemma map_filter_map_Some:
  assumes "\<And>x. f (g x) = Some (h x)"
  shows "List.map_filter f (map g xs) = map h xs"
  by (induction xs) (simp_all add: assms)

lemma q_rot_logs_silent:
  "List.map_filter operation_of (q_rot_logs L) = []"
  "List.map_filter plan_call (q_rot_logs L) = []"
  "List.map_filter execute_call (q_rot_logs L) = []"
  "List.map_filter path_published (q_rot_logs L) = []"
  "List.map_filter axis_published (q_rot_logs L) = []"
  "List.map_filter group_constructed (q_rot_logs L) = []"
  "List.map_filter thread_started (q_rot_logs L) = []"
  unfolding q_rot_logs_def by (rule map_filter_map_None, simp add: waypoint_body_snd)+

lemma q_rot_logs_filter:
  "filter is_prompt (q_rot_logs L) = []"
  "filter is_execute (q_rot_logs L) = []"
  "filter is_log (q_rot_logs L) = q_rot_logs L"
  unfolding q_rot_logs_def
  by (simp_all add: filter_empty_conv filter_id_conv waypoint_body_snd)

lemma axis_labels_silent:
  "List.map_filter plan_call (axis_labels vt wps) = []"
  "List.map_filter execute_call (axis_labels vt wps) = []"
  "List.map_filter path_published (axis_labels vt wps) = []"
  "List.map_filter group_constructed (axis_labels vt wps) = []"
  "List.map_filter thread_started (axis_labels vt wps) = []"
  unfolding axis_labels_def by (rule map_filter_map_None, simp)+

lemma axis_labels_filter:
  "filter is_prompt (axis_labels vt wps) = []"
  "filter is_execute (axis_labels vt wps) = []"
  "filter is_log (axis_labels vt wps) = []"
  unfolding axis_labels_def by (simp_all add: filter_empty_conv)

lemma axis_labels_operations:
  "List.map_filter operation_of (axis_labels vt wps) = replicate (length wps) Op_publishAxisLabeled"
proof -
  have "List.map_filter operation_of (axis_labels vt wps) =
          map (\<lambda>i. Op_publishAxisLabeled) [0..<length wps]"
    unfolding axis_labels_def by (rule map_filter_map_Some) simp
  then show ?thesis by (simp add: map_replicate_const)
qed

lemma axis_labels_published:
  "List.map_filter axis_published (axis_labels vt wps) =
     map (\<lambda>i. (wps ! i, ''pt'' @ to_string i)) [0..<length wps]"
  unfolding axis_labels_def by (rule map_filter_map_Some) simp

lemma axis_labels_poses:
  "map fst (List.map_filter axis_published (axis_labels vt wps)) = wps"
  by (simp add: axis_labels_published o_def map_nth)

lemmas observe_simps =
  map_filter_append q_rot_logs_silent q_rot_logs_filter axis_labels_silent axis_labels_filter
  axis_labels_operations axis_labels_poses length_waypoints_of

lemmas iteration_events_defs = iteration_events_def show_events_def execute_events_def

lemma iteration_operations:
  "operations (iteration_events L s) =
     [Op_prompt, Op_computeCartesianPath, Op_publishPath] @ replicate 13 Op_publishAxisLabeled @
     [Op_prompt, Op_execute]"
  by (simp add: operations_def iteration_events_defs observe_simps)

lemma iteration_plan_calls:
  "List.map_filter plan_call (iteration_events L s) =
     [(move_group s, waypoints_of L, dlit (1 / 100), dlit 0)]"
  by (simp add: iteration_events_defs observe_simps)

lemma iteration_execute_calls:
  "List.map_filter execute_call (iteration_events L s) = [(move_group s, snd (plan_answer L s))]"
  by (simp add: iteration_events_defs observe_simps)

lemma iteration_paths:
  "List.map_filter path_published (iteration_events L s) = [waypoints_of L]"
  by (simp add: iteration_events_defs observe_simps)

lemma iteration_axes_labelled:
  "List.map_filter axis_published (iteration_events L s) =
     map (\<lambda>i. (waypoints_of L ! i, ''pt'' @ to_string i)) [0..<13]"
  by (simp add: iteration_events_defs observe_simps axis_labels_published)

lemma iteration_axes:
  "map fst (List.map_filter axis_published (iteration_events L s)) = waypoints_of L"
  by (simp add: iteration_events_defs observe_simps)

lemma iteration_no_group:
  "List.map_filter group_constructed (iteration_events L s) = []"
  by (simp add: iteration_events_defs observe_simps)

lemma iteration_no_thread:
  "List.map_filter thread_started (iteration_events L s) = []"
  by (simp add: iteration_events_defs observe_simps)

lemma execute_result_silent:
  "List.map_filter execute_result (q_rot_logs L) = []"
  "List.map_filter execute_result (axis_labels vt wps) = []"
  unfolding q_rot_logs_def axis_labels_def
  by (rule map_filter_map_None, simp add: waypoint_body_snd)+

lemma iteration_execute_results:
  "List.map_filter execute_result (iteration_events L s) =
     [execute L (plan_trace L s @ show_events L s) (snd (plan_answer L s))]"
  by (simp add: iteration_events_def execute_events_def execute_result_silent map_filter_append
      show_events_def [of L s])

lemma show_events_filter:
  "filter is_execute (show_events L s) = []"
  "length (filter is_prompt (show_events L s)) = 1"
  by (simp_all add: show_events_def observe_simps)

lemma after_execute_append:
  assumes "filter is_execute xs = []"
  shows "after_execute (xs @ ys) = after_execute ys"
  using assms by (induction xs) (simp_all split: if_splits)

lemma iteration_after_execute:
  "after_execute (iteration_events L s) = [DeleteAllMarkers (visual_tools s), Trigger (visual_tools s)]"
proof -
  have "filter is_execute (Prompt (visual_tools s) plan_prompt # q_rot_logs L @ show_events L s) = []"
    by (simp add: show_events_filter observe_simps)
  from after_execute_append [OF this, of "execute_events L s"]
  show ?thesis by (simp add: iteration_events_def execute_events_def)
qed

lemma split_at_only:
  assumes "filter P xs = []" and "P e" and "xs @ x # ys = pre @ e # post" and "filter P ys = []"
    and "P x"
  shows "pre = xs"
  using assms
proof (induction xs arbitrary: pre)
  case Nil
  show ?case
  proof (cases pre)
    case Nil
    then show ?thesis by simp
  next
    case (Cons p pre')
    with Nil.prems have "ys = pre' @ e # post" by simp
    with Nil.prems show ?thesis by simp
  qed
next
  case (Cons a xs)
  from Cons.prems have a: "\<not> P a" and xs: "filter P xs = []"
    by (simp_all split: if_splits)
  show ?case
  proof (cases pre)
    case Nil
    with Cons.prems a show ?thesis by simp
  next
    case (Cons p pre')
    with Cons.prems have "xs @ x # ys = pre' @ e # post" and "p = a" by simp_all
    with Cons.IH [OF xs Cons.prems(2) _ Cons.prems(4,5)] Cons show ?thesis by simp
  qed
qed

lemma iteration_prompts_before_execute:
  assumes "iteration_events L s = pre @ e # post" and "is_execute e"
  shows "length (filter is_prompt pre) = 2"
proof -
  let ?xs = "Prompt (visual_tools s) plan_prompt # q_rot_logs L @ show_events L s"
  let ?x = "Execute (move_group s) (snd (plan_answer L s))
        (execute L (plan_trace L s @ show_events L s) (snd (plan_answer L s)))"
  let ?ys = "[DeleteAllMarkers (visual_tools s), Trigger (visual_tools s)]"
  have eq: "?xs @ ?x # ?ys = pre @ e # post"
    using assms(1) by (simp add: iteration_events_def execute_events_def)
  have "filter is_execute ?xs = []"
    by (simp add: show_events_filter observe_simps)
  from split_at_only [OF this assms(2) eq] have "pre = ?xs" by simp
  then show ?thesis by (simp add: show_events_filter observe_simps)
qed

section \<open>Before the loop and after any number of passes\<close>

lemma cout_writes_silent:
  "List.map_filter group_constructed (concat (map (\<lambda>n. [Cout_write n, Cout_write '', '']) names)) = []"
  "List.map_filter thread_started (concat (map (\<lambda>n. [Cout_write n, Cout_write '', '']) names)) = []"
  "List.map_filter plan_call (concat (map (\<lambda>n. [Cout_write n, Cout_write '', '']) names)) = []"
  "List.map_filter execute_call (concat (map (\<lambda>n. [Cout_write n, Cout_write '', '']) names)) = []"
  by (induction names) simp_all

lemma main_init_vars:
  "move_group (main_init L argv) = \<lparr>mg_node = ''welding_demo_node'', mg_group = PLANNING_GROUP\<rparr>"
  by (simp add: main_init_def Let_def)

lemma main_init_calls:
  "List.map_filter group_constructed (trace (main_init L argv)) =
     [\<lparr>mg_node = ''welding_demo_node'', mg_group = PLANNING_GROUP\<rparr>]"
  "List.map_filter thread_started (trace (main_init L argv)) = [''executor.spin()'']"
  "List.map_filter plan_call (trace (main_init L argv)) = []"
  "List.map_filter execute_call (trace (main_init L argv)) = []"
  by (simp_all add: main_init_def Let_def map_filter_append cout_writes_silent)

lemma iterations_run:
  "\<exists>evs. iterations L n s = Some (s\<lparr>trace := trace s @ evs\<rparr>) \<and>
     List.map_filter plan_call evs = replicate n (move_group s, waypoints_of L, dlit (1 / 100), dlit 0) \<and>
     map fst (List.map_filter execute_call evs) = replicate n (move_group s) \<and>
     List.map_filter group_constructed evs = [] \<and>
     List.map_filter thread_started evs = []"
proof (induction n arbitrary: s)
  case 0
  show ?case by (rule exI [of _ "[]"]) simp
next
  case (Suc n)
  let ?s1 = "s\<lparr>trace := trace s @ iteration_events L s\<rparr>"
  from Suc [of ?s1] obtain evs where
    run: "iterations L n ?s1 = Some (?s1\<lparr>trace := trace ?s1 @ evs\<rparr>)"
    and plan: "List.map_filter plan_call evs =
      replicate n (move_group ?s1, waypoints_of L, dlit (1 / 100), dlit 0)"
    and exec: "map fst (List.map_filter execute_call evs) = replicate n (move_group ?s1)"
    and grp: "List.map_filter group_constructed evs = []"
    and thr: "List.map_filter thread_started evs = []"
    by blast
  have "iterations L (Suc n) s = Some (s\<lparr>trace := trace s @ (iteration_events L s @ evs)\<rparr>)"
    using run by (simp add: demo_iteration_eq)
  moreover have "List.map_filter plan_call (iteration_events L s @ evs) =
      replicate (Suc n) (move_group s, waypoints_of L, dlit (1 / 100), dlit 0)"
    using plan by (simp add: map_filter_append iteration_plan_calls)
  moreover have "map fst (List.map_filter execute_call (iteration_events L s @ evs)) =
      replicate (Suc n) (move_group s)"
    using exec by (simp add: map_filter_append iteration_execute_calls)
  moreover have "List.map_filter group_constructed (iteration_events L s @ evs) = []"
    using grp by (simp add: map_filter_append iteration_no_group)
  moreover have "List.map_filter thread_started (iteration_events L s @ evs) = []"
    using thr by (simp add: map_filter_append iteration_no_thread)
  ultimately show ?case by blast
qed

lemma dlit_values: "dlit (1 / 100) = 5764607523034235 / 2 ^ 59" "dlit 0 = 0"
  by code_simp+

lemma waypoints_of_explicit:
  "waypoints_of L = map (\<lambda>angle. fst (waypoint_body L angle))
     [0, 1 / 2, 1, 3 / 2, 2, 5 / 2, 3, 7 / 2, 4, 9 / 2, 5, 11 / 2, 6]"
  by (simp only: waypoints_of_def waypoint_angles_def)

lemma operation_filter:
  "filter is_operation (q_rot_logs L) = []"
  "filter is_operation (axis_labels vt wps) = axis_labels vt wps"
  unfolding q_rot_logs_def axis_labels_def
  by (simp_all add: filter_empty_conv filter_id_conv waypoint_body_snd is_operation_def)

lemma axis_labels_thirteen:
  "axis_labels vt (waypoints_of L) =
     map (\<lambda>i. PublishAxisLabeled vt (waypoints_of L ! i) (''pt'' @ to_string i) SMALL) [0..<13]"
  by (simp add: axis_labels_def length_waypoints_of)

lemma iteration_operation_events:
  "filter is_operation (iteration_events L s) =
     [Prompt (visual_tools s) plan_prompt,
      ComputeCartesianPath (move_group s) (waypoints_of L) (dlit (1 / 100)) (dlit 0)
        (fst (plan_answer L s)) (snd (plan_answer L s)),
      PublishPath (visual_tools s) (waypoints_of L) LIME_GREEN SMALL] @
     map (\<lambda>i. PublishAxisLabeled (visual_tools s) (waypoints_of L ! i) (''pt'' @ to_string i) SMALL)
       [0..<13] @
     [Prompt (visual_tools s) execute_prompt,
      Execute (move_group s) (snd (plan_answer L s))
        (execute L (plan_trace L s @ show_events L s) (snd (plan_answer L s)))]"
  apply (simp add: iteration_events_defs operation_filter is_operation_def)
  apply (simp add: axis_labels_thirteen)
  done

lemma text_published_silent:
  "List.map_filter text_published (q_rot_logs L) = []"
  "List.map_filter text_published (axis_labels vt wps) = []"
  unfolding q_rot_logs_def axis_labels_def
  by (rule map_filter_map_None, simp add: waypoint_body_snd)+

lemma iteration_texts:
  "List.map_filter text_published (iteration_events L s) = [text_pose s]"
  by (simp add: iteration_events_defs text_published_silent map_filter_append)

lemma cout_writes_no_text:
  "List.map_filter text_published (concat (map (\<lambda>n. [Cout_write n, Cout_write '', '']) names)) = []"
  "List.map_filter path_published (concat (map (\<lambda>n. [Cout_write n, Cout_write '', '']) names)) = []"
  by (induction names) simp_all

lemma main_init_text_pose:
  "text_pose (main_init L argv) =
     \<lparr>linear = [Vector3 1 0 0, Vector3 0 1 0, Vector3 0 0 1], translation = Vector3 0 0 1\<rparr>"
  by (simp add: main_init_def Let_def Isometry3d_Identity_def Vector3_def dlit_def f64_def
      fl_round_def ilog2_def round_even_def)

lemma main_init_texts:
  "List.map_filter text_published (trace (main_init L argv)) = [text_pose (main_init L argv)]"
  "List.map_filter path_published (trace (main_init L argv)) = []"
  by (simp_all add: main_init_def Let_def map_filter_append cout_writes_no_text)

lemma iterations_poses:
  "\<exists>evs. iterations L n s = Some (s\<lparr>trace := trace s @ evs\<rparr>) \<and>
     map (fst \<circ> snd) (List.map_filter plan_call evs) = replicate n (waypoints_of L) \<and>
     List.map_filter path_published evs = replicate n (waypoints_of L) \<and>
     List.map_filter text_published evs = replicate n (text_pose s)"
proof (induction n arbitrary: s)
  case 0
  show ?case by (rule exI [of _ "[]"]) simp
next
  case (Suc n)
  let ?s1 = "s\<lparr>trace := trace s @ iteration_events L s\<rparr>"
  from Suc [of ?s1] obtain evs where
    run: "iterations L n ?s1 = Some (?s1\<lparr>trace := trace ?s1 @ evs\<rparr>)"
    and plan: "map (fst \<circ> snd) (List.map_filter plan_call evs) = replicate n (waypoints_of L)"
    and path: "List.map_filter path_published evs = replicate n (waypoints_of L)"
    and texts: "List.map_filter text_published evs = replicate n (text_pose ?s1)"
    by blast
  have "iterations L (Suc n) s = Some (s\<lparr>trace := trace s @ (iteration_events L s @ evs)\<rparr>)"
    using run by (simp add: demo_iteration_eq)
  moreover have "map (fst \<circ> snd) (List.map_filter plan_call (iteration_events L s @ evs)) =
      replicate (Suc n) (waypoints_of L)"
    using plan by (simp add: map_filter_append iteration_plan_calls)
  moreover have "List.map_filter path_published (iteration_events L s @ evs) =
      replicate (Suc n) (waypoints_of L)"
    using path by (simp add: map_filter_append iteration_paths)
  moreover have "List.map_filter text_published (iteration_events L s @ evs) =
      replicate (Suc n) (text_pose s)"
    using texts by (simp add: map_filter_append iteration_texts)
  ultimately show ?case by blast
qed

section \<open>The claims about one pass\<close>

text \<open>
  Claim C3. In every pass through the demo loop the operations come in this order, with
  these arguments: an operator prompt; \<^verbatim>\<open>computeCartesianPath\<close> on the waypoint list (the
  thirteen poses the waypoint loop has just built); the drawing of the path, which is
  \<^verbatim>\<open>publishPath\<close> on the same list and then one \<^verbatim>\<open>publishAxisLabeled\<close> for each waypoint in
  order, labelled \<^verbatim>\<open>pt0\<close> to \<^verbatim>\<open>pt12\<close>; a second operator prompt; and only then \<^verbatim>\<open>execute\<close>, on
  the trajectory that the planning call of this pass has returned. The fraction and the
  trajectory are what the library answers to the planning call after the events before it,
  and likewise the code for the execution call. Wherever the events of the pass are cut in
  front of an \<^verbatim>\<open>execute\<close> call, both prompts of the pass are in the part before the cut.
\<close>

theorem iteration_order_of_operations:
  "\<exists>s' wps fraction traj code before_plan after_plan before_execute after_execute.
     demo_iteration L s = Some s' \<and>
     wps = map (\<lambda>angle. fst (waypoint_body L angle))
             [0, 1 / 2, 1, 3 / 2, 2, 5 / 2, 3, 7 / 2, 4, 9 / 2, 5, 11 / 2, 6] \<and>
     filter is_operation (new_events s s') =
       [Prompt (visual_tools s) plan_prompt,
        ComputeCartesianPath (move_group s) wps (dlit (1 / 100)) (dlit 0) fraction traj,
        PublishPath (visual_tools s) wps LIME_GREEN SMALL] @
       map (\<lambda>i. PublishAxisLabeled (visual_tools s) (wps ! i) (''pt'' @ to_string i) SMALL)
         [0..<13] @
       [Prompt (visual_tools s) execute_prompt, Execute (move_group s) traj code] \<and>
     new_events s s' =
       before_plan @
       ComputeCartesianPath (move_group s) wps (dlit (1 / 100)) (dlit 0) fraction traj #
       after_plan \<and>
     (fraction, traj) =
       computeCartesianPath L (trace s @ before_plan) wps (dlit (1 / 100)) (dlit 0) \<and>
     new_events s s' = before_execute @ Execute (move_group s) traj code # after_execute \<and>
     code = execute L (trace s @ before_execute) traj \<and>
     operations (new_events s s') =
       [Op_prompt, Op_computeCartesianPath, Op_publishPath] @
       replicate 13 Op_publishAxisLabeled @ [Op_prompt, Op_execute] \<and>
     (\<forall>pre e post. new_events s s' = pre @ e # post \<and> is_execute e \<longrightarrow>
         length (filter is_prompt pre) = 2)"
proof -
  let ?s' = "s\<lparr>trace := trace s @ iteration_events L s\<rparr>"
  let ?before_plan = "Prompt (visual_tools s) plan_prompt # q_rot_logs L"
  let ?plan = "ComputeCartesianPath (move_group s) (waypoints_of L) (dlit (1 / 100)) (dlit 0)
        (fst (plan_answer L s)) (snd (plan_answer L s))"
  let ?after_plan = "[Log_info ''Visualizing plan for a Cartesian path (%.2f%% achieved)''
        [Arg_dbl (f64 (fst (plan_answer L s) * dlit 100))],
      DeleteAllMarkers (visual_tools s),
      PublishText (visual_tools s) (text_pose s) ''Cartesian_Path'' WHITE XLARGE,
      PublishPath (visual_tools s) (waypoints_of L) LIME_GREEN SMALL] @
     axis_labels (visual_tools s) (waypoints_of L) @
     [Trigger (visual_tools s), Prompt (visual_tools s) execute_prompt] @ execute_events L s"
  let ?before_execute = "?before_plan @ show_events L s"
  let ?code = "execute L (plan_trace L s @ show_events L s) (snd (plan_answer L s))"
  let ?after_execute = "[DeleteAllMarkers (visual_tools s), Trigger (visual_tools s)]"
  have new: "new_events s ?s' = iteration_events L s"
    by (rule new_events_append)
  have 1: "demo_iteration L s = Some ?s'"
    by (rule demo_iteration_eq)
  have 2: "waypoints_of L = map (\<lambda>angle. fst (waypoint_body L angle))
             [0, 1 / 2, 1, 3 / 2, 2, 5 / 2, 3, 7 / 2, 4, 9 / 2, 5, 11 / 2, 6]"
    by (rule waypoints_of_explicit)
  have 3: "filter is_operation (new_events s ?s') =
       [Prompt (visual_tools s) plan_prompt, ?plan,
        PublishPath (visual_tools s) (waypoints_of L) LIME_GREEN SMALL] @
       map (\<lambda>i. PublishAxisLabeled (visual_tools s) (waypoints_of L ! i) (''pt'' @ to_string i) SMALL)
         [0..<13] @
       [Prompt (visual_tools s) execute_prompt, Execute (move_group s) (snd (plan_answer L s)) ?code]"
    unfolding new by (rule iteration_operation_events)
  have 4: "new_events s ?s' = ?before_plan @ ?plan # ?after_plan"
    unfolding new by (simp add: iteration_events_def show_events_def)
  have 5: "(fst (plan_answer L s), snd (plan_answer L s)) =
      computeCartesianPath L (trace s @ ?before_plan) (waypoints_of L) (dlit (1 / 100)) (dlit 0)"
    by (simp add: plan_answer_def plan_trace_def)
  have 6: "new_events s ?s' =
      ?before_execute @ Execute (move_group s) (snd (plan_answer L s)) ?code # ?after_execute"
    unfolding new by (simp add: iteration_events_def execute_events_def)
  have 7: "?code = execute L (trace s @ ?before_execute) (snd (plan_answer L s))"
    by (simp add: plan_trace_def)
  have 8: "operations (new_events s ?s') =
       [Op_prompt, Op_computeCartesianPath, Op_publishPath] @
       replicate 13 Op_publishAxisLabeled @ [Op_prompt, Op_execute]"
    unfolding new by (rule iteration_operations)
  have 9: "\<forall>pre e post. new_events s ?s' = pre @ e # post \<and> is_execute e \<longrightarrow>
         length (filter is_prompt pre) = 2"
    unfolding new using iteration_prompts_before_execute by blast
  show ?thesis
    apply (rule exI [of _ ?s'])
    apply (rule exI [of _ "waypoints_of L"])
    apply (rule exI [of _ "fst (plan_answer L s)"])
    apply (rule exI [of _ "snd (plan_answer L s)"])
    apply (rule exI [of _ ?code])
    apply (rule exI [of _ ?before_plan])
    apply (rule exI [of _ ?after_plan])
    apply (rule exI [of _ ?before_execute])
    apply (rule exI [of _ ?after_execute])
    apply (intro conjI)
    apply (rule 1)
    apply (rule 2)
    apply (rule 3)
    apply (rule 4)
    apply (rule 5)
    apply (rule 6)
    apply (rule 7)
    apply (rule 8)
    apply (rule 9)
    done
qed

lemma operations_execute:
  assumes "Op_execute \<in> set (operations evs)"
  shows "\<exists>e \<in> set evs. is_execute e"
  using assms
proof (induction evs)
  case Nil
  then show ?case by (simp add: operations_def)
next
  case (Cons a evs)
  show ?case
  proof (cases "is_execute a")
    case True
    then show ?thesis by simp
  next
    case False
    then have "operation_of a \<noteq> Some Op_execute"
      by (cases a) simp_all
    with Cons.prems have "Op_execute \<in> set (operations evs)"
      by (auto simp add: operations_def split: option.splits)
    with Cons.IH show ?thesis by auto
  qed
qed

text \<open>
  The cut of claim C3 exists: run against the stand-in library, the first pass has an
  \<^verbatim>\<open>execute\<close> call, and both prompts are before it.
\<close>

theorem iteration_order_of_operations_witness:
  "\<exists>s' pre e post.
     demo_iteration stub_library (main_init stub_library []) = Some s' \<and>
     new_events (main_init stub_library []) s' = pre @ e # post \<and> is_execute e \<and>
     length (filter is_prompt pre) = 2"
proof -
  from iteration_order_of_operations [of stub_library "main_init stub_library []"]
  obtain s' where it: "demo_iteration stub_library (main_init stub_library []) = Some s'"
    and ops: "operations (new_events (main_init stub_library []) s') =
       [Op_prompt, Op_computeCartesianPath, Op_publishPath] @
       replicate 13 Op_publishAxisLabeled @ [Op_prompt, Op_execute]"
    and cut: "\<forall>pre e post. new_events (main_init stub_library []) s' = pre @ e # post \<and>
       is_execute e \<longrightarrow> length (filter is_prompt pre) = 2"
    by (elim exE conjE)
  from ops have "Op_execute \<in> set (operations (new_events (main_init stub_library []) s'))"
    by simp
  then obtain e where e: "e \<in> set (new_events (main_init stub_library []) s')" "is_execute e"
    using operations_execute by blast
  from e(1) obtain pre post where split: "new_events (main_init stub_library []) s' = pre @ e # post"
    by (auto dest: split_list)
  with cut e(2) have "length (filter is_prompt pre) = 2" by blast
  with it split e(2) show ?thesis by blast
qed

lemma pass_poses:
  "\<exists>s' tr'.
     demo_iteration L s = Some s' \<and>
     waypoint_loop L 0 [] (trace s @ [Prompt (visual_tools s) plan_prompt]) =
       Some (waypoints_of L, tr') \<and>
     map (fst \<circ> snd) (List.map_filter plan_call (new_events s s')) = [waypoints_of L] \<and>
     List.map_filter path_published (new_events s s') = [waypoints_of L] \<and>
     List.map_filter axis_published (new_events s s') =
       map (\<lambda>i. (waypoints_of L ! i, ''pt'' @ to_string i)) [0..<13] \<and>
     List.map_filter text_published (new_events s s') = [text_pose s] \<and>
     s' = s\<lparr>trace := trace s @ new_events s s'\<rparr>"
proof (intro exI conjI)
  let ?s' = "s\<lparr>trace := trace s @ iteration_events L s\<rparr>"
  show "demo_iteration L s = Some ?s'"
    by (rule demo_iteration_eq)
  show "waypoint_loop L 0 [] (trace s @ [Prompt (visual_tools s) plan_prompt]) =
      Some (waypoints_of L, (trace s @ [Prompt (visual_tools s) plan_prompt]) @ q_rot_logs L)"
    by (rule waypoint_loop_0)
  show "map (fst \<circ> snd) (List.map_filter plan_call (new_events s ?s')) = [waypoints_of L]"
    by (simp add: new_events_append iteration_plan_calls)
  show "List.map_filter path_published (new_events s ?s') = [waypoints_of L]"
    by (simp only: new_events_append iteration_paths)
  show "List.map_filter axis_published (new_events s ?s') =
      map (\<lambda>i. (waypoints_of L ! i, ''pt'' @ to_string i)) [0..<13]"
    by (simp only: new_events_append iteration_axes_labelled)
  show "List.map_filter text_published (new_events s ?s') = [text_pose s]"
    by (simp only: new_events_append iteration_texts)
  show "?s' = s\<lparr>trace := trace s @ new_events s ?s'\<rparr>"
    by (simp only: new_events_append)
qed

lemma run_poses:
  "\<exists>s'. iterations L n (main_init L argv) = Some s' \<and>
     map (fst \<circ> snd) (List.map_filter plan_call (trace s')) = replicate n (waypoints_of L) \<and>
     List.map_filter path_published (trace s') = replicate n (waypoints_of L) \<and>
     text_pose s' =
       \<lparr>linear = [Vector3 1 0 0, Vector3 0 1 0, Vector3 0 0 1], translation = Vector3 0 0 1\<rparr> \<and>
     List.map_filter text_published (trace s') =
       replicate (Suc n)
         \<lparr>linear = [Vector3 1 0 0, Vector3 0 1 0, Vector3 0 0 1], translation = Vector3 0 0 1\<rparr>"
proof -
  from iterations_poses [of L n "main_init L argv"] obtain evs where
    "iterations L n (main_init L argv) =
       Some ((main_init L argv)\<lparr>trace := trace (main_init L argv) @ evs\<rparr>)"
    and "map (fst \<circ> snd) (List.map_filter plan_call evs) = replicate n (waypoints_of L)"
    and "List.map_filter path_published evs = replicate n (waypoints_of L)"
    and "List.map_filter text_published evs = replicate n (text_pose (main_init L argv))"
    by (elim exE conjE)
  then show ?thesis
    by (simp add: map_filter_append main_init_calls main_init_texts main_init_text_pose)
qed

text \<open>
  Claim C6, as the code has it. The waypoint list lives within one pass: in every pass, from
  every state, the waypoint loop builds it from the empty list, it is the thirteen poses at
  the angles 0, 0.5, ..., 6, and this one list is what \<^verbatim>\<open>computeCartesianPath\<close> and
  \<^verbatim>\<open>publishPath\<close> receive and, element by element, what the \<^verbatim>\<open>publishAxisLabeled\<close> calls
  receive. No waypoint goes from one pass to the next: after any number of passes, every
  planning call and every path drawing of the run got exactly these thirteen poses. One pose
  does stay in a variable of the program across the passes: \<^verbatim>\<open>text_pose\<close>, the placement of the
  text marker (the identity moved to height 1.0), set before the loop and handed to
  \<^verbatim>\<open>publishText\<close> once before the loop and once in every pass.
\<close>

theorem waypoint_list_rebuilt_in_every_iteration:
  "\<exists>wps. wps = map (\<lambda>angle. fst (waypoint_body L angle))
               [0, 1 / 2, 1, 3 / 2, 2, 5 / 2, 3, 7 / 2, 4, 9 / 2, 5, 11 / 2, 6] \<and>
     length wps = 13 \<and>
     (\<forall>s. \<exists>s' tr'.
         demo_iteration L s = Some s' \<and>
         waypoint_loop L 0 [] (trace s @ [Prompt (visual_tools s) plan_prompt]) = Some (wps, tr') \<and>
         map (fst \<circ> snd) (List.map_filter plan_call (new_events s s')) = [wps] \<and>
         List.map_filter path_published (new_events s s') = [wps] \<and>
         List.map_filter axis_published (new_events s s') =
           map (\<lambda>i. (wps ! i, ''pt'' @ to_string i)) [0..<13] \<and>
         List.map_filter text_published (new_events s s') = [text_pose s] \<and>
         s' = s\<lparr>trace := trace s @ new_events s s'\<rparr>) \<and>
     (\<forall>n argv. \<exists>s'.
         iterations L n (main_init L argv) = Some s' \<and>
         map (fst \<circ> snd) (List.map_filter plan_call (trace s')) = replicate n wps \<and>
         List.map_filter path_published (trace s') = replicate n wps \<and>
         text_pose s' =
           \<lparr>linear = [Vector3 1 0 0, Vector3 0 1 0, Vector3 0 0 1], translation = Vector3 0 0 1\<rparr> \<and>
         List.map_filter text_published (trace s') =
           replicate (Suc n)
             \<lparr>linear = [Vector3 1 0 0, Vector3 0 1 0, Vector3 0 0 1], translation = Vector3 0 0 1\<rparr>)"
proof (rule exI [of _ "waypoints_of L"], intro conjI allI)
  show "waypoints_of L = map (\<lambda>angle. fst (waypoint_body L angle))
               [0, 1 / 2, 1, 3 / 2, 2, 5 / 2, 3, 7 / 2, 4, 9 / 2, 5, 11 / 2, 6]"
    by (rule waypoints_of_explicit)
  show "length (waypoints_of L) = 13"
    by (rule length_waypoints_of)
qed (rule pass_poses run_poses)+

text \<open>
  Against claim C6 as it is written: run against the stand-in library, the state after the
  first pass holds the pose \<^verbatim>\<open>text_pose\<close>, and in a run of two passes that one pose is what
  \<^verbatim>\<open>publishText\<close> gets before the loop, in the first pass and in the second.
\<close>

theorem text_pose_kept_across_iterations:
  "map_option text_pose (iterations stub_library 1 (main_init stub_library [])) =
     Some \<lparr>linear = [Vector3 1 0 0, Vector3 0 1 0, Vector3 0 0 1], translation = Vector3 0 0 1\<rparr> \<and>
   map_option (List.map_filter text_published \<circ> trace)
       (iterations stub_library 2 (main_init stub_library [])) =
     Some [\<lparr>linear = [Vector3 1 0 0, Vector3 0 1 0, Vector3 0 0 1], translation = Vector3 0 0 1\<rparr>,
           \<lparr>linear = [Vector3 1 0 0, Vector3 0 1 0, Vector3 0 0 1], translation = Vector3 0 0 1\<rparr>,
           \<lparr>linear = [Vector3 1 0 0, Vector3 0 1 0, Vector3 0 0 1], translation = Vector3 0 0 1\<rparr>]"
proof -
  from iterations_poses [of stub_library 1 "main_init stub_library []"] obtain evs1 where
    run1: "iterations stub_library 1 (main_init stub_library []) =
       Some ((main_init stub_library [])\<lparr>trace := trace (main_init stub_library []) @ evs1\<rparr>)"
    by (elim exE conjE)
  from iterations_poses [of stub_library 2 "main_init stub_library []"] obtain evs2 where
    run2: "iterations stub_library 2 (main_init stub_library []) =
       Some ((main_init stub_library [])\<lparr>trace := trace (main_init stub_library []) @ evs2\<rparr>)"
    and texts: "List.map_filter text_published evs2 =
       replicate 2 (text_pose (main_init stub_library []))"
    by (elim exE conjE)
  have "replicate 2 (text_pose (main_init stub_library [])) =
      [text_pose (main_init stub_library []), text_pose (main_init stub_library [])]"
    by (simp add: numeral_2_eq_2)
  with texts show ?thesis
    unfolding run1 run2
    by (simp add: map_filter_append main_init_texts main_init_text_pose)
qed

text \<open>
  Claim C8. The waypoint loop (\<^verbatim>\<open>float angle\<close> from 0, plus 0.5 while below \<^verbatim>\<open>2 * M_PI\<close>, in
  binary32 and binary64 arithmetic) terminates, whatever events came before it, and yields
  exactly thirteen waypoints: the poses of the loop body at the angles 0, 0.5, 1, ..., 6 in
  this order. The list depends on nothing but the numeric library functions, and in every
  pass through the demo loop it is the list that is planned.
\<close>

theorem waypoint_loop_thirteen_poses:
  "\<exists>wps. wps = map (\<lambda>angle. fst (waypoint_body L angle))
               [0, 1 / 2, 1, 3 / 2, 2, 5 / 2, 3, 7 / 2, 4, 9 / 2, 5, 11 / 2, 6] \<and>
     length wps = 13 \<and>
     (\<forall>tr. \<exists>tr'. waypoint_loop L 0 [] tr = Some (wps, tr')) \<and>
     (\<forall>s. \<exists>s'. demo_iteration L s = Some s' \<and>
         map (fst \<circ> snd) (List.map_filter plan_call (new_events s s')) = [wps])"
proof (intro exI conjI allI)
  show "waypoints_of L = map (\<lambda>angle. fst (waypoint_body L angle))
               [0, 1 / 2, 1, 3 / 2, 2, 5 / 2, 3, 7 / 2, 4, 9 / 2, 5, 11 / 2, 6]"
    by (simp only: waypoints_of_def waypoint_angles_def)
  show "length (waypoints_of L) = 13"
    by (rule length_waypoints_of)
next
  fix tr :: "'a event list"
  show "waypoint_loop L 0 [] tr = Some (waypoints_of L, tr @ q_rot_logs L)"
    by (rule waypoint_loop_0)
next
  fix s :: "'a main_state"
  show "demo_iteration L s = Some (s\<lparr>trace := trace s @ iteration_events L s\<rparr>)"
    by (rule demo_iteration_eq)
  show "map (fst \<circ> snd) (List.map_filter plan_call
      (new_events s (s\<lparr>trace := trace s @ iteration_events L s\<rparr>))) = [waypoints_of L]"
    by (simp add: new_events_append iteration_plan_calls)
qed

text \<open>
  Claim C5, as the code has it. In every pass the fraction that \<^verbatim>\<open>computeCartesianPath\<close>
  returns is logged, times 100, by the statement right behind the call. The error code that
  \<^verbatim>\<open>execute\<close> returns is dropped: the pass has one \<^verbatim>\<open>execute\<close> call, and behind it come only
  \<^verbatim>\<open>deleteAllMarkers\<close> and \<^verbatim>\<open>trigger\<close>, no log line.
\<close>

theorem fraction_logged_execute_result_dropped:
  "\<exists>s' pre post mg wps eef_step jump fraction traj.
     demo_iteration L s = Some s' \<and>
     new_events s s' =
       pre @ ComputeCartesianPath mg wps eef_step jump fraction traj #
         Log_info ''Visualizing plan for a Cartesian path (%.2f%% achieved)''
           [Arg_dbl (f64 (fraction * dlit 100))] # post \<and>
     (fraction, traj) = computeCartesianPath L (trace s @ pre) wps eef_step jump \<and>
     length (filter is_execute (new_events s s')) = 1 \<and>
     after_execute (new_events s s') = [DeleteAllMarkers (visual_tools s), Trigger (visual_tools s)] \<and>
     filter is_log (after_execute (new_events s s')) = []"
proof (intro exI conjI)
  let ?s' = "s\<lparr>trace := trace s @ iteration_events L s\<rparr>"
  let ?pre = "Prompt (visual_tools s) plan_prompt # q_rot_logs L"
  let ?post = "[DeleteAllMarkers (visual_tools s),
      PublishText (visual_tools s) (text_pose s) ''Cartesian_Path'' WHITE XLARGE,
      PublishPath (visual_tools s) (waypoints_of L) LIME_GREEN SMALL] @
     axis_labels (visual_tools s) (waypoints_of L) @
     [Trigger (visual_tools s), Prompt (visual_tools s) execute_prompt] @ execute_events L s"
  show "demo_iteration L s = Some ?s'"
    by (rule demo_iteration_eq)
  show "new_events s ?s' =
       ?pre @ ComputeCartesianPath (move_group s) (waypoints_of L) (dlit (1 / 100)) (dlit 0)
           (fst (plan_answer L s)) (snd (plan_answer L s)) #
         Log_info ''Visualizing plan for a Cartesian path (%.2f%% achieved)''
           [Arg_dbl (f64 (fst (plan_answer L s) * dlit 100))] # ?post"
    by (simp add: new_events_append iteration_events_def show_events_def)
  show "(fst (plan_answer L s), snd (plan_answer L s)) =
      computeCartesianPath L (trace s @ ?pre) (waypoints_of L) (dlit (1 / 100)) (dlit 0)"
    by (simp add: plan_answer_def plan_trace_def)
  show "length (filter is_execute (new_events s ?s')) = 1"
    by (simp add: new_events_append iteration_events_def execute_events_def show_events_filter
        observe_simps)
  show "after_execute (new_events s ?s') =
      [DeleteAllMarkers (visual_tools s), Trigger (visual_tools s)]"
    by (simp only: new_events_append iteration_after_execute)
  show "filter is_log (after_execute (new_events s ?s')) = []"
    by (simp add: new_events_append iteration_after_execute)
qed

text \<open>
  Against claim C5 as it is written: run against the stand-in library, the first pass gets
  the error code 99999 from \<^verbatim>\<open>execute\<close>, and no log line follows the call.
\<close>

theorem execute_error_code_not_logged:
  "map_option (List.map_filter execute_result \<circ> new_events (main_init stub_library []))
      (demo_iteration stub_library (main_init stub_library [])) = Some [99999] \<and>
   map_option (filter is_log \<circ> after_execute \<circ> new_events (main_init stub_library []))
      (demo_iteration stub_library (main_init stub_library [])) = Some []"
  by (simp add: demo_iteration_eq new_events_append iteration_execute_results
      iteration_after_execute stub_library_def)

section \<open>The claims about a whole run\<close>

text \<open>
  Claim C4, as the code has it. The program starts the background thread itself: before the
  loop it constructs one \<^verbatim>\<open>std::thread\<close> that runs \<^verbatim>\<open>executor.spin()\<close> and detaches it. That is
  the only thread the program starts: after any number of passes through the demo loop the
  run still has this one thread start and no other.
\<close>

theorem program_starts_one_spin_thread:
  "\<exists>s'. iterations L n (main_init L argv) = Some s' \<and>
     List.map_filter thread_started (trace s') = [''executor.spin()'']"
proof -
  from iterations_run [of L n "main_init L argv"] obtain evs where
    "iterations L n (main_init L argv) =
       Some ((main_init L argv)\<lparr>trace := trace (main_init L argv) @ evs\<rparr>)"
    and "List.map_filter thread_started evs = []"
    by blast
  then show ?thesis
    by (simp add: map_filter_append main_init_calls)
qed

text \<open>
  Against claim C4 as it is written: the events of the program before the loop contain a
  thread start made by the program.
\<close>

theorem spin_thread_created_by_program:
  "List.map_filter thread_started (trace (main_init stub_library [])) \<noteq> []"
  by (simp add: main_init_calls)

text \<open>
  Claim C7. The program names one planning group, \<^verbatim>\<open>"ur_manipulator"\<close>, and constructs one
  \<^verbatim>\<open>MoveGroupInterface\<close>, for that group. After any number of passes through the demo loop,
  every \<^verbatim>\<open>computeCartesianPath\<close> call and every \<^verbatim>\<open>execute\<close> call of the run was made on that
  object.
\<close>

theorem single_planning_group:
  "PLANNING_GROUP = ''ur_manipulator'' \<and>
   (\<exists>s' mg. iterations L n (main_init L argv) = Some s' \<and>
      mg = \<lparr>mg_node = ''welding_demo_node'', mg_group = ''ur_manipulator''\<rparr> \<and>
      List.map_filter group_constructed (trace s') = [mg] \<and>
      move_group s' = mg \<and>
      map fst (List.map_filter plan_call (trace s')) = replicate n mg \<and>
      map fst (List.map_filter execute_call (trace s')) = replicate n mg)"
proof -
  from iterations_run [of L n "main_init L argv"] obtain evs where
    "iterations L n (main_init L argv) =
       Some ((main_init L argv)\<lparr>trace := trace (main_init L argv) @ evs\<rparr>)"
    and "List.map_filter plan_call evs =
       replicate n (move_group (main_init L argv), waypoints_of L, dlit (1 / 100), dlit 0)"
    and "map fst (List.map_filter execute_call evs) = replicate n (move_group (main_init L argv))"
    and "List.map_filter group_constructed evs = []"
    by blast
  then show ?thesis
    by (simp add: map_filter_append main_init_calls main_init_vars PLANNING_GROUP_def)
qed

text \<open>
  Claim C9. Every \<^verbatim>\<open>computeCartesianPath\<close> call of a run is made with the maximal
  end-effector step 0.01 (as a double) and the jump threshold 0.0.
\<close>

theorem plan_calls_step_and_jump_threshold:
  "\<exists>s'. iterations L n (main_init L argv) = Some s' \<and>
     map (snd \<circ> snd) (List.map_filter plan_call (trace s')) = replicate n (dlit (1 / 100), 0) \<and>
     dlit (1 / 100) = 5764607523034235 / 2 ^ 59"
proof -
  from iterations_run [of L n "main_init L argv"] obtain evs where
    "iterations L n (main_init L argv) =
       Some ((main_init L argv)\<lparr>trace := trace (main_init L argv) @ evs\<rparr>)"
    and "List.map_filter plan_call evs =
       replicate n (move_group (main_init L argv), waypoints_of L, dlit (1 / 100), dlit 0)"
    by blast
  then show ?thesis
    by (simp add: map_filter_append main_init_calls dlit_values)
qed

section \<open>The demo loop\<close>

lemma demo_loop_no_exit:
  assumes "demo_loop L s = Some y"
  shows False
proof (rule demo_loop.raw_induct [where P = "\<lambda>L s y. False", OF _ assms])
  fix loop :: "'t library \<Rightarrow> 't main_state \<Rightarrow> 't main_state option" and L s y
  assume IH: "\<And>L s y. loop L s = Some y \<Longrightarrow> False"
    and step: "(if (1 :: int) \<noteq> 0 then Option.bind (demo_iteration L s) (loop L) else Some s) = Some y"
  from step have "Option.bind (demo_iteration L s) (loop L) = Some y" by simp
  then obtain s1 where "loop L s1 = Some y"
    by (cases "demo_iteration L s") simp_all
  then show False by (rule IH)
qed

lemma demo_loop_None: "demo_loop L s = None"
  using demo_loop_no_exit [of L s] by (cases "demo_loop L s") auto

lemma main_None: "main L argv = None"
  by (simp add: main_def demo_loop_None)

text \<open>
  Claim C10. The demo loop never exits: its condition is the constant 1 and its body has no
  \<^verbatim>\<open>break\<close> and no \<^verbatim>\<open>return\<close>. So from no state does the loop hand control to the statements
  behind it, \<^verbatim>\<open>rclcpp::shutdown()\<close> and \<^verbatim>\<open>return 0\<close> are never reached, and no run of \<^verbatim>\<open>main\<close>
  returns, whatever the libraries answer and whatever the command line is.
\<close>

theorem demo_loop_never_exits: "demo_loop L s = None \<and> main L argv = None"
  by (simp add: demo_loop_None main_None)

end
